theory Spec2Isabelle
  imports Complex_Main "HOL-Library.AList"
begin

section \<open>JavaScript values\<close>

text \<open>
  The image handler is JavaScript: its edits are plain objects, its numbers are doubles
  and its strings are parsed with \<^verbatim>\<open>parseInt\<close> and \<^verbatim>\<open>parseFloat\<close>.

  A number is either a finite value or \<^verbatim>\<open>NaN\<close>. Finite values are exact rationals: the
  arithmetic of the handler (products of a pixel dimension with a percentage or a
  fraction, divided by 100) is modelled without the rounding of IEEE doubles, and without
  infinities. The model agrees with the engine wherever every intermediate value is
  exactly representable as a double of magnitude below \<open>2^53\<close>; the concrete inputs used
  below are of that kind.

  An object is the list of its own properties in enumeration order (for the string keys
  of an edit set: the order of creation), with distinct keys. Reading a missing property
  gives \<^verbatim>\<open>undefined\<close>; assigning to a missing property adds it at the end.
\<close>

datatype number = Num rat | NaN

datatype jsval =
    Undefined
  | Null
  | Bool bool
  | Number number
  | Str string
  | Obj "(string \<times> jsval) list"

type_synonym props = "(string \<times> jsval) list"

instantiation number :: "{plus, minus, times, inverse}"
begin

fun plus_number :: "number \<Rightarrow> number \<Rightarrow> number" where
  "plus_number (Num a) (Num b) = Num (a + b)"
| "plus_number _ _ = NaN"

fun minus_number :: "number \<Rightarrow> number \<Rightarrow> number" where
  "minus_number (Num a) (Num b) = Num (a - b)"
| "minus_number _ _ = NaN"

fun times_number :: "number \<Rightarrow> number \<Rightarrow> number" where
  "times_number (Num a) (Num b) = Num (a * b)"
| "times_number _ _ = NaN"

text \<open>
  The handler only ever divides by the literal 100; a division by zero, an infinity in
  the engine, is outside the model and given as \<^verbatim>\<open>NaN\<close>.
\<close>

fun inverse_number :: "number \<Rightarrow> number" where
  "inverse_number (Num a) = (if a = 0 then NaN else Num (inverse a))"
| "inverse_number NaN = NaN"

fun divide_number :: "number \<Rightarrow> number \<Rightarrow> number" where
  "divide_number (Num a) (Num b) = (if b = 0 then NaN else Num (a / b))"
| "divide_number _ _ = NaN"

instance ..

end

text \<open>\<^verbatim>\<open>x < 0\<close> on a number: false for \<^verbatim>\<open>NaN\<close>.\<close>

fun isNegative :: "number \<Rightarrow> bool" where
  "isNegative (Num r) = (r < 0)"
| "isNegative NaN = False"

definition ofInt :: "int \<Rightarrow> number" where
  "ofInt i = Num (of_int i)"

text \<open>The truth value of a JavaScript value in a condition.\<close>

fun truthy :: "jsval \<Rightarrow> bool" where
  "truthy Undefined = False"
| "truthy Null = False"
| "truthy (Bool b) = b"
| "truthy (Number (Num r)) = (r \<noteq> 0)"
| "truthy (Number NaN) = False"
| "truthy (Str s) = (s \<noteq> [])"
| "truthy (Obj ps) = True"

text \<open>\<^verbatim>\<open>o.k\<close> on an object given by its properties.\<close>

definition getProp :: "props \<Rightarrow> string \<Rightarrow> jsval" where
  "getProp ps k = (case map_of ps k of None \<Rightarrow> Undefined | Some v \<Rightarrow> v)"

text \<open>
  \<^verbatim>\<open>v.k\<close> on any value: a \<^verbatim>\<open>TypeError\<close> (here \<open>None\<close>) on \<^verbatim>\<open>undefined\<close> and
  \<^verbatim>\<open>null\<close>, the property of an object, and \<^verbatim>\<open>undefined\<close> on the other primitives
  (none of the property names the handler reads exists on a boolean, number or string).
\<close>

fun member :: "jsval \<Rightarrow> string \<Rightarrow> jsval option" where
  "member Undefined k = None"
| "member Null k = None"
| "member (Obj ps) k = Some (getProp ps k)"
| "member v k = Some Undefined"

subsection \<open>parseInt and parseFloat\<close>

definition isSpace :: "char \<Rightarrow> bool" where
  "isSpace c = (c \<in> set [CHR '' '', CHR 0x09, CHR 0x0A, CHR 0x0B, CHR 0x0C, CHR 0x0D])"

definition digitTable :: "(char \<times> nat) list" where
  "digitTable =
     [(CHR ''0'', 0), (CHR ''1'', 1), (CHR ''2'', 2), (CHR ''3'', 3), (CHR ''4'', 4),
      (CHR ''5'', 5), (CHR ''6'', 6), (CHR ''7'', 7), (CHR ''8'', 8), (CHR ''9'', 9)]"

definition hexTable :: "(char \<times> nat) list" where
  "hexTable = digitTable @
     [(CHR ''a'', 10), (CHR ''b'', 11), (CHR ''c'', 12), (CHR ''d'', 13), (CHR ''e'', 14),
      (CHR ''f'', 15), (CHR ''A'', 10), (CHR ''B'', 11), (CHR ''C'', 12), (CHR ''D'', 13),
      (CHR ''E'', 14), (CHR ''F'', 15)]"

definition isDigitIn :: "(char \<times> nat) list \<Rightarrow> char \<Rightarrow> bool" where
  "isDigitIn tbl c = (map_of tbl c \<noteq> None)"

definition digitIn :: "(char \<times> nat) list \<Rightarrow> char \<Rightarrow> nat" where
  "digitIn tbl c = (case map_of tbl c of None \<Rightarrow> 0 | Some d \<Rightarrow> d)"

definition digitsValue :: "nat \<Rightarrow> (char \<times> nat) list \<Rightarrow> string \<Rightarrow> nat" where
  "digitsValue radix tbl ds = foldl (\<lambda>acc c. radix * acc + digitIn tbl c) 0 ds"

text \<open>A leading sign: whether it is a minus, and the rest of the string.\<close>

fun signOf :: "string \<Rightarrow> bool \<times> string" where
  "signOf [] = (False, [])"
| "signOf (c # cs) =
     (if c = CHR ''-'' then (True, cs)
      else if c = CHR ''+'' then (False, cs)
      else (False, c # cs))"

text \<open>
  \<^verbatim>\<open>parseInt(s)\<close> without a radix: leading white space is skipped, a sign is read, a
  prefix \<^verbatim>\<open>0x\<close> selects radix 16, and the longest run of digits is the value; without a
  digit the result is \<^verbatim>\<open>NaN\<close>. What follows the digits is ignored.
\<close>

definition parseIntStr :: "string \<Rightarrow> number" where
  "parseIntStr s =
     (let (neg, u) = signOf (dropWhile isSpace s);
          hex = (take 2 u = ''0x'' \<or> take 2 u = ''0X'');
          body = (if hex then drop 2 u else u);
          tbl = (if hex then hexTable else digitTable);
          ds = takeWhile (isDigitIn tbl) body;
          n = int (digitsValue (if hex then 16 else 10) tbl ds)
      in if ds = [] then NaN else ofInt (if neg then - n else n))"

text \<open>
  \<^verbatim>\<open>parseInt(x)\<close> on a number prints the number and parses the text. A magnitude from
  \<open>10^-6\<close> on is printed in plain decimal notation, so the result is the number truncated
  towards zero. A smaller non-zero magnitude is printed as \<^verbatim>\<open>d.ddde-n\<close>, and the parse
  stops after the first significant digit \<^verbatim>\<open>d\<close>.
\<close>

function firstDigit :: "nat \<Rightarrow> nat \<Rightarrow> nat" where
  "firstDigit a b = (if a = 0 \<or> b \<le> a then a div b else firstDigit (10 * a) b)"
  by pat_completeness auto
termination
  by (relation "measure (\<lambda>(a, b). b - a)") auto

definition truncRat :: "rat \<Rightarrow> int" where
  "truncRat r = (if r < 0 then - \<lfloor>- r\<rfloor> else \<lfloor>r\<rfloor>)"

definition parseIntRat :: "rat \<Rightarrow> int" where
  "parseIntRat r =
     (if r = 0 \<or> 1 / 10 ^ 6 \<le> \<bar>r\<bar> then truncRat r
      else (let (a, b) = quotient_of \<bar>r\<bar>; d = int (firstDigit (nat a) (nat b))
            in if r < 0 then - d else d))"

fun parseIntNum :: "number \<Rightarrow> number" where
  "parseIntNum (Num r) = ofInt (parseIntRat r)"
| "parseIntNum NaN = NaN"


text \<open>
  \<^verbatim>\<open>parseFloat(s)\<close>: white space, a sign, digits, an optional fraction and an optional
  exponent; \<^verbatim>\<open>NaN\<close> without a digit in the mantissa. The text \<^verbatim>\<open>Infinity\<close>, which
  the engine reads as an infinity, has no digit and is outside the model.
\<close>

definition exponentOf :: "string \<Rightarrow> int" where
  "exponentOf s =
     (case s of
        [] \<Rightarrow> 0
      | c # cs \<Rightarrow>
          if c = CHR ''e'' \<or> c = CHR ''E'' then
            (let (neg, u) = signOf cs;
                 ds = takeWhile (isDigitIn digitTable) u;
                 n = int (digitsValue 10 digitTable ds)
             in if ds = [] then 0 else if neg then - n else n)
          else 0)"

definition scale10 :: "rat \<Rightarrow> int \<Rightarrow> rat" where
  "scale10 r e = (if 0 \<le> e then r * 10 ^ nat e else r / 10 ^ nat (- e))"

definition parseFloatStr :: "string \<Rightarrow> number" where
  "parseFloatStr s =
     (let (neg, u) = signOf (dropWhile isSpace s);
          ip = takeWhile (isDigitIn digitTable) u;
          r1 = dropWhile (isDigitIn digitTable) u;
          dot = (take 1 r1 = ''.'');
          fp = (if dot then takeWhile (isDigitIn digitTable) (drop 1 r1) else []);
          r2 = (if dot then dropWhile (isDigitIn digitTable) (drop 1 r1) else r1);
          m = of_nat (digitsValue 10 digitTable ip)
              + of_nat (digitsValue 10 digitTable fp) / 10 ^ length fp;
          v = scale10 m (exponentOf r2)
      in if ip = [] \<and> fp = [] then NaN else Num (if neg then - v else v))"

text \<open>
  \<^verbatim>\<open>parseFloat(v)\<close> on a value: a number prints and parses back to itself, a string
  is parsed, and every other value prints as a word without digits.
\<close>

fun parseFloat :: "jsval \<Rightarrow> number" where
  "parseFloat (Number n) = n"
| "parseFloat (Str s) = parseFloatStr s"
| "parseFloat v = NaN"

section \<open>Image metadata and overlay placement\<close>

record metadata =
  width :: int
  height :: int

text \<open>
  \<^verbatim>\<open>s.endsWith('p')\<close> and \<^verbatim>\<open>s.replace('p', '')\<close>; the latter removes the first
  \<^verbatim>\<open>p\<close> of the string, wherever it stands.
\<close>

definition endsWithP :: "string \<Rightarrow> bool" where
  "endsWithP s = (s \<noteq> [] \<and> last s = CHR ''p'')"

definition replaceP :: "string \<Rightarrow> string" where
  "replaceP s = remove1 (CHR ''p'') s"

text \<open>
  One axis of the placement, lines 73 to 87 for \<^verbatim>\<open>left\<close> and lines 90 to 104 for
  \<^verbatim>\<open>top\<close> of \<^verbatim>\<open>applyEdits\<close>: the option string, the dimension of the base image and
  the dimension of the overlay on that axis give the value stored back into the option.
\<close>

definition placement :: "string \<Rightarrow> int \<Rightarrow> int \<Rightarrow> number" where
  "placement s base overlay =
     (if endsWithP s then
        (let l = parseIntStr (replaceP s) in
         parseIntNum
           (if isNegative l then ofInt base + (ofInt base * l / Num 100) - ofInt overlay
            else ofInt base * l / Num 100))
      else
        (let l = parseIntStr s in
         parseIntNum (if isNegative l then ofInt base + l - ofInt overlay else l)))"

section \<open>Errors\<close>

text \<open>
  What is thrown or rejected is either an error object of the engine or of a
  collaborator, of which the handler reads \<^verbatim>\<open>statusCode\<close>, \<^verbatim>\<open>code\<close> and
  \<^verbatim>\<open>message\<close>, or the plain object \<^verbatim>\<open>{status, code, message}\<close> that the handler
  builds itself.
\<close>

datatype error =
    ErrorObject jsval jsval jsval
  | Rejection jsval jsval jsval

fun statusCodeOf :: "error \<Rightarrow> jsval" where
  "statusCodeOf (ErrorObject sc c m) = sc"
| "statusCodeOf (Rejection st c m) = Undefined"

fun codeOf :: "error \<Rightarrow> jsval" where
  "codeOf (ErrorObject sc c m) = c"
| "codeOf (Rejection st c m) = c"

fun messageOf :: "error \<Rightarrow> jsval" where
  "messageOf (ErrorObject sc c m) = m"
| "messageOf (Rejection st c m) = m"

text \<open>A \<^verbatim>\<open>TypeError\<close> of the engine has a message and neither status nor code.\<close>

definition typeError :: "string \<Rightarrow> error" where
  "typeError msg = ErrorObject Undefined Undefined (Str msg)"

text \<open>The engine's report of the read of a property on \<^verbatim>\<open>undefined\<close> or \<^verbatim>\<open>null\<close>.\<close>

definition cannotRead :: "string \<Rightarrow> jsval \<Rightarrow> error" where
  "cannotRead k v =
     typeError (''Cannot read property '' @ [CHR 0x27] @ k @ [CHR 0x27] @ '' of ''
                @ (if v = Null then ''null'' else ''undefined''))"

definition nullish :: "jsval \<Rightarrow> bool" where
  "nullish v = (v = Undefined \<or> v = Null)"

text \<open>A property of a value that is known not to be \<^verbatim>\<open>undefined\<close> or \<^verbatim>\<open>null\<close>.\<close>

definition field :: "jsval \<Rightarrow> string \<Rightarrow> jsval" where
  "field v k = (case member v k of None \<Rightarrow> Undefined | Some x \<Rightarrow> x)"

section \<open>The collaborators\<close>

text \<open>
  The handler sequences calls into the image library, the object store and the face
  detector. An image handle is the buffer it was opened on together with the operations
  called on it so far, in call order; the library runs them when the handle is rendered.
  An input of a composite layer is a buffer of bytes or one of the three fixed markup
  templates of the watermark with the caller's text in place of \<^verbatim>\<open>${name}\<close>.
\<close>

type_synonym bytes = "nat list"

record boundingBox =
  Left :: number
  Top :: number
  Width :: number
  Height :: number

record cropArea =
  left :: number
  top :: number
  width :: number
  height :: number

datatype svg = BannerXlink | Cute | Banner

datatype buffer = Bytes bytes | Markup svg jsval

text \<open>
  \<open>Method k v\<close> is the call \<^verbatim>\<open>image[k](v)\<close>, \<open>Composite options input\<close> is
  \<^verbatim>\<open>image.composite([{ ...options, input }])\<close>, and \<open>Extract area\<close> is
  \<^verbatim>\<open>image.extract(area)\<close>.
\<close>

datatype call =
    Method string jsval
  | Composite jsval buffer
  | Extract cropArea

record handle =
  source :: bytes
  failOnError :: bool
  calls :: "call list"

text \<open>
  The behaviour of the collaborators is a parameter of the model: what
  \<^verbatim>\<open>metadata()\<close> and \<^verbatim>\<open>toBuffer()\<close> give for a handle, whether a call on a handle
  throws when it is made, what the store holds under a bucket and key, and which faces
  the detector finds, most confident first (of a face only its bounding box is read).
\<close>

record world =
  metadataOf :: "handle \<Rightarrow> error + metadata"
  toBuffer :: "handle \<Rightarrow> error + bytes"
  throws :: "handle \<Rightarrow> call \<Rightarrow> error option"
  getObject :: "jsval \<Rightarrow> jsval \<Rightarrow> error + bytes"
  detectFaces :: "bytes \<Rightarrow> error + boundingBox list"

text \<open>\<^verbatim>\<open>sharp(buffer)\<close> and \<^verbatim>\<open>sharp(buffer, { failOnError: false })\<close>.\<close>

definition sharp :: "bytes \<Rightarrow> handle" where
  "sharp b = \<lparr>source = b, failOnError = True, calls = []\<rparr>"

definition sharpTolerant :: "bytes \<Rightarrow> handle" where
  "sharpTolerant b = \<lparr>source = b, failOnError = False, calls = []\<rparr>"

text \<open>A call on a handle either throws or is recorded on the handle.\<close>

definition invoke :: "world \<Rightarrow> handle \<Rightarrow> call \<Rightarrow> error + handle" where
  "invoke W h c =
     (case throws W h c of
        Some e \<Rightarrow> Inl e
      | None \<Rightarrow> Inr (h\<lparr>calls := calls h @ [c]\<rparr>))"

section \<open>The image handler\<close>

text \<open>
  The two source files of the handler differ only in the \<^verbatim>\<open>TEPWatermark\<close> branch of
  \<^verbatim>\<open>applyEdits\<close>. What they share is modelled once; the branch is modelled for
  \<^verbatim>\<open>source/image-handler/image-handler.js\<close> and for the second file, which is
  referred to as part 000.
\<close>

subsection \<open>getOverlayImage\<close>

text \<open>
  The test \<^verbatim>\<open>/^(100|[1-9]?[0-9])$/.test(v)\<close> prints the value and matches the text;
  where it holds, the value used as a number is the integer matched.
\<close>

definition zeroToHundredStr :: "string \<Rightarrow> bool" where
  "zeroToHundredStr s =
     (s = ''100''
      \<or> (case s of
            [d] \<Rightarrow> isDigitIn digitTable d
          | [c, d] \<Rightarrow> isDigitIn digitTable c \<and> c \<noteq> CHR ''0'' \<and> isDigitIn digitTable d
          | _ \<Rightarrow> False))"

fun zeroToHundred :: "jsval \<Rightarrow> nat option" where
  "zeroToHundred (Number (Num r)) =
     (if of_int \<lfloor>r\<rfloor> = r \<and> 0 \<le> r \<and> r \<le> 100 then Some (nat \<lfloor>r\<rfloor>) else None)"
| "zeroToHundred (Str s) =
     (if zeroToHundredStr s then Some (digitsValue 10 digitTable s) else None)"
| "zeroToHundred v = None"

text \<open>The object \<^verbatim>\<open>resize\<close> of lines 161 to 172.\<close>

definition overlayResize :: "jsval \<Rightarrow> jsval \<Rightarrow> metadata \<Rightarrow> jsval" where
  "overlayResize wRatio hRatio sourceImageMetadata =
     Obj ([(''fit'', Str ''inside'')]
       @ (case zeroToHundred wRatio of
            None \<Rightarrow> []
          | Some w \<Rightarrow>
              [(''width'', Number (parseIntNum
                 (ofInt (metadata.width sourceImageMetadata) * ofInt (int w) / Num 100)))])
       @ (case zeroToHundred hRatio of
            None \<Rightarrow> []
          | Some h \<Rightarrow>
              [(''height'', Number (parseIntNum
                 (ofInt (metadata.height sourceImageMetadata) * ofInt (int h) / Num 100)))]))"

text \<open>
  The one-pixel layer of lines 183 to 191: its alpha byte is
  \<^verbatim>\<open>255 * (1 - alpha / 100)\<close>, cut to a byte by \<^verbatim>\<open>Buffer.from\<close>.
\<close>

definition alphaLayer :: "jsval \<Rightarrow> call" where
  "alphaLayer alpha =
     (let a = (case zeroToHundred alpha of None \<Rightarrow> 0 | Some n \<Rightarrow> n)
      in Composite
           (Obj [(''raw'', Obj [(''width'', Number (Num 1)), (''height'', Number (Num 1)),
                                 (''channels'', Number (Num 4))]),
                 (''tile'', Bool True),
                 (''blend'', Str ''dest-in'')])
           (Bytes [255, 255, 255, nat \<lfloor>255 * (1 - rat_of_nat a / 100)\<rfloor>]))"

text \<open>The handler of line 194: every failure inside the \<^verbatim>\<open>try\<close> is rejected this way.\<close>

definition overlayFailure :: "error \<Rightarrow> error" where
  "overlayFailure err =
     Rejection
       (if truthy (statusCodeOf err) then statusCodeOf err else Number (Num 500))
       (codeOf err) (messageOf err)"

definition getOverlayImage ::
  "world \<Rightarrow> jsval \<Rightarrow> jsval \<Rightarrow> jsval \<Rightarrow> jsval \<Rightarrow> jsval \<Rightarrow> metadata \<Rightarrow> error + bytes" where
  "getOverlayImage W bucket key wRatio hRatio alpha sourceImageMetadata =
     (case getObject W bucket key of
        Inl err \<Rightarrow> Inl (overlayFailure err)
      | Inr body \<Rightarrow>
          (case invoke W (sharp body)
                  (Method ''resize'' (overlayResize wRatio hRatio sourceImageMetadata)) of
             Inl err \<Rightarrow> Inl (overlayFailure err)
           | Inr resized \<Rightarrow>
               (case invoke W resized (alphaLayer alpha) of
                  Inl err \<Rightarrow> Inl (overlayFailure err)
                | Inr composited \<Rightarrow>
                    (case toBuffer W composited of
                       Inl err \<Rightarrow> Inl (overlayFailure err)
                     | Inr convertedImage \<Rightarrow> Inr convertedImage))))"

subsection \<open>getCropArea\<close>

text \<open>
  \<^verbatim>\<open>options\<close> is the value of the \<^verbatim>\<open>smartCrop\<close> edit; reading its padding throws
  only when that value is \<^verbatim>\<open>undefined\<close> or \<^verbatim>\<open>null\<close>.
\<close>

definition paddingOf :: "jsval \<Rightarrow> number" where
  "paddingOf p = (if p \<noteq> Undefined then parseFloat p else Num 0)"

definition getCropArea :: "boundingBox \<Rightarrow> jsval \<Rightarrow> metadata \<Rightarrow> error + cropArea" where
  "getCropArea boundingBox options metadata =
     (case member options ''padding'' of
        None \<Rightarrow> Inl (cannotRead ''padding'' options)
      | Some p \<Rightarrow>
          (let padding = paddingOf p in
           Inr \<lparr>left = parseIntNum
                    ((Left boundingBox * ofInt (metadata.width metadata)) - padding),
                top = parseIntNum
                    ((Top boundingBox * ofInt (metadata.height metadata)) - padding),
                width = parseIntNum
                    ((Width boundingBox * ofInt (metadata.width metadata)) + (padding * Num 2)),
                height = parseIntNum
                    ((Height boundingBox * ofInt (metadata.height metadata))
                     + (padding * Num 2))\<rparr>))"

subsection \<open>getBoundingBox\<close>

text \<open>
  \<^verbatim>\<open>response.FaceDetails[faceIdx]\<close>: an element for an integer index within the list,
  given as a number or as its decimal text, and \<^verbatim>\<open>undefined\<close> (here \<open>None\<close>) for every
  other number and for every other value that is not the name of a property of arrays
  (those names, such as \<^verbatim>\<open>length\<close>, are no face index and are not modelled).
\<close>

definition indexStr :: "string \<Rightarrow> bool" where
  "indexStr s = (s = ''0'' \<or> (s \<noteq> [] \<and> hd s \<noteq> CHR ''0'' \<and> list_all (isDigitIn digitTable) s))"

fun faceAt :: "boundingBox list \<Rightarrow> jsval \<Rightarrow> boundingBox option" where
  "faceAt fs (Number (Num r)) =
     (if of_int \<lfloor>r\<rfloor> = r \<and> 0 \<le> r \<and> nat \<lfloor>r\<rfloor> < length fs then Some (fs ! nat \<lfloor>r\<rfloor>) else None)"
| "faceAt fs (Str s) =
     (if indexStr s \<and> digitsValue 10 digitTable s < length fs
      then Some (fs ! digitsValue 10 digitTable s) else None)"
| "faceAt fs v = None"

text \<open>
  The message with which the engine of the handler's time (V8 up to Node.js 14) reports
  the read of \<^verbatim>\<open>BoundingBox\<close> on \<^verbatim>\<open>undefined\<close>; the handler compares with this text.
\<close>

definition noBoundingBox :: string where
  "noBoundingBox = ''Cannot read property 'BoundingBox' of undefined''"

text \<open>The handler of lines 237 to 252.\<close>

definition boundingBoxFailure :: "error \<Rightarrow> error" where
  "boundingBoxFailure err =
     (if messageOf err = Str ''Cannot read property 'BoundingBox' of undefined'' then
        Rejection (Number (Num 400)) (Str ''SmartCrop::FaceIndexOutOfRange'')
          (Str ''You have provided a FaceIndex value that exceeds the length of the zero-based detectedFaces array. Please specify a value that is in-range.'')
      else
        Rejection (Number (Num 500)) (codeOf err) (messageOf err))"

definition getBoundingBox :: "world \<Rightarrow> bytes \<Rightarrow> jsval \<Rightarrow> error + boundingBox" where
  "getBoundingBox W imageBuffer faceIndex =
     (let faceIdx = (if faceIndex \<noteq> Undefined then faceIndex else Number (Num 0)) in
      case detectFaces W imageBuffer of
        Inl err \<Rightarrow> Inl (boundingBoxFailure err)
      | Inr faceDetails \<Rightarrow>
          (case faceAt faceDetails faceIdx of
             None \<Rightarrow> Inl (boundingBoxFailure (typeError noBoundingBox))
           | Some box \<Rightarrow> Inr box))"

subsection \<open>applyEdits\<close>

text \<open>Lines 45 to 48: the default resize, assigned to the caller's object.\<close>

definition fitInside :: jsval where
  "fitInside = Obj [(''fit'', Str ''inside'')]"

definition defaultResize :: "props \<Rightarrow> props" where
  "defaultResize edits =
     (if getProp edits ''resize'' = Undefined then AList.update ''resize'' fitInside edits
      else edits)"

text \<open>
  Lines 60 to 64, repeated in the \<^verbatim>\<open>TEPWatermark\<close> branch: the metadata that the
  placement and the watermark use. With a truthy \<^verbatim>\<open>edits.resize\<close> the working image is
  rendered, a second handle is opened on the rendered bytes, \<^verbatim>\<open>resize\<close> is called on it
  with the object \<^verbatim>\<open>{ edits: { resize: edits.resize } }\<close>, and its metadata is read.
\<close>

definition resizeArgument :: "props \<Rightarrow> jsval" where
  "resizeArgument edits = Obj [(''edits'', Obj [(''resize'', getProp edits ''resize'')])]"

definition resizedCopy :: "world \<Rightarrow> props \<Rightarrow> handle \<Rightarrow> error + handle" where
  "resizedCopy W edits img =
     (case toBuffer W img of
        Inl err \<Rightarrow> Inl err
      | Inr imageBuffer \<Rightarrow>
          invoke W (sharp imageBuffer) (Method ''resize'' (resizeArgument edits)))"

definition imageMetadataFor ::
  "world \<Rightarrow> props \<Rightarrow> handle \<Rightarrow> metadata \<Rightarrow> error + metadata" where
  "imageMetadataFor W edits img metadata =
     (if truthy (getProp edits ''resize'') then
        (case resizedCopy W edits img of
           Inl err \<Rightarrow> Inl err
         | Inr copy \<Rightarrow> metadataOf W copy)
      else Inr metadata)"

text \<open>
  Lines 72 to 88 and 89 to 105: one axis of the placement options. A truthy option that
  is not a string has no \<^verbatim>\<open>endsWith\<close>, and the call throws. The resolved number is
  assigned to the property of the caller's options object.
\<close>

definition placeAxis :: "string \<Rightarrow> int \<Rightarrow> int \<Rightarrow> jsval \<Rightarrow> error + jsval" where
  "placeAxis k base overlay options =
     (case options of
        Obj ps \<Rightarrow>
          (if truthy (getProp ps k) then
             (case getProp ps k of
                Str s \<Rightarrow> Inr (Obj (AList.update k (Number (placement s base overlay)) ps))
              | _ \<Rightarrow> Inl (typeError (k @ ''.endsWith is not a function'')))
           else Inr options)
      | _ \<Rightarrow> Inr options)"

text \<open>
  Lines 70 to 106: the options after the placement, and the error if one was thrown on
  the way (the assignment to \<^verbatim>\<open>left\<close> is then already made).
\<close>

definition placeOverlay :: "jsval \<Rightarrow> metadata \<Rightarrow> metadata \<Rightarrow> jsval \<times> error option" where
  "placeOverlay options imageMetadata overlayMetadata =
     (if truthy options then
        (case placeAxis ''left'' (metadata.width imageMetadata)
                (metadata.width overlayMetadata) options of
           Inl err \<Rightarrow> (options, Some err)
         | Inr options1 \<Rightarrow>
             (case placeAxis ''top'' (metadata.height imageMetadata)
                     (metadata.height overlayMetadata) options1 of
                Inl err \<Rightarrow> (options1, Some err)
              | Inr options2 \<Rightarrow> (options2, None)))
      else (options, None))"

text \<open>
  The options object is a part of the edit's value, which is a part of the caller's
  edits: an assignment to a property of the options is seen in the edits. The options
  differ from those of the value exactly when an assignment was made.
\<close>

definition withOptions :: "string \<Rightarrow> jsval \<Rightarrow> jsval \<Rightarrow> props \<Rightarrow> props" where
  "withOptions key value options edits =
     (case value of
        Obj vs \<Rightarrow>
          (if getProp vs ''options'' = options then edits
           else AList.update key (Obj (AList.update ''options'' options vs)) edits)
      | _ \<Rightarrow> edits)"

text \<open>The branch \<^verbatim>\<open>overlayWith\<close>, lines 59 to 109.\<close>

definition overlayWith ::
  "world \<Rightarrow> metadata \<Rightarrow> jsval \<Rightarrow> props \<Rightarrow> handle \<Rightarrow> props \<times> (error + handle)" where
  "overlayWith W metadata value edits img =
     (case imageMetadataFor W edits img metadata of
        Inl err \<Rightarrow> (edits, Inl err)
      | Inr imageMetadata \<Rightarrow>
          if nullish value then
            (edits, Inl (typeError ''Cannot destructure property `bucket` of 'undefined' or 'null'.''))
          else
            (case getOverlayImage W (field value ''bucket'') (field value ''key'')
                    (field value ''wRatio'') (field value ''hRatio'') (field value ''alpha'')
                    imageMetadata of
               Inl err \<Rightarrow> (edits, Inl err)
             | Inr overlay \<Rightarrow>
                 (case metadataOf W (sharp overlay) of
                    Inl err \<Rightarrow> (edits, Inl err)
                  | Inr overlayMetadata \<Rightarrow>
                      (case placeOverlay (field value ''options'') imageMetadata
                              overlayMetadata of
                         (options, Some err) \<Rightarrow>
                           (withOptions ''overlayWith'' value options edits, Inl err)
                       | (options, None) \<Rightarrow>
                           (withOptions ''overlayWith'' value options edits,
                            invoke W img (Composite options (Bytes overlay)))))))"

text \<open>The branch \<^verbatim>\<open>smartCrop\<close>, lines 110 to 123.\<close>

definition paddingOutOfBounds :: error where
  "paddingOutOfBounds =
     Rejection (Number (Num 400)) (Str ''SmartCrop::PaddingOutOfBounds'')
       (Str ''The padding value you provided exceeds the boundaries of the original image. Please try choosing a smaller value or applying padding via Sharp for greater specificity.'')"

definition smartCrop :: "world \<Rightarrow> metadata \<Rightarrow> jsval \<Rightarrow> handle \<Rightarrow> error + handle" where
  "smartCrop W metadata options img =
     (case toBuffer W img of
        Inl err \<Rightarrow> Inl err
      | Inr imageBuffer \<Rightarrow>
          (case member options ''faceIndex'' of
             None \<Rightarrow> Inl (cannotRead ''faceIndex'' options)
           | Some faceIndex \<Rightarrow>
               (case getBoundingBox W imageBuffer faceIndex of
                  Inl err \<Rightarrow> Inl err
                | Inr boundingBox \<Rightarrow>
                    (case getCropArea boundingBox options metadata of
                       Inl err \<Rightarrow> Inl err
                     | Inr area \<Rightarrow>
                         (case invoke W img (Extract area) of
                            Inl err \<Rightarrow> Inl paddingOutOfBounds
                          | Inr cropped \<Rightarrow> Inr cropped)))))"

text \<open>
  The branch \<^verbatim>\<open>TEPWatermark\<close> of \<^verbatim>\<open>source/image-handler/image-handler.js\<close>, lines 124
  to 140: an overlay is fetched, and the banner with the caller's name is composited.
\<close>

definition nameOf :: "jsval \<Rightarrow> jsval" where
  "nameOf options = (if field options ''name'' = Undefined then Str [] else field options ''name'')"

definition styleOf :: "jsval \<Rightarrow> jsval" where
  "styleOf options = (if field options ''style'' = Undefined then Str [] else field options ''style'')"

definition tepWatermark ::
  "world \<Rightarrow> metadata \<Rightarrow> jsval \<Rightarrow> props \<Rightarrow> handle \<Rightarrow> error + handle" where
  "tepWatermark W metadata value edits img =
     (case imageMetadataFor W edits img metadata of
        Inl err \<Rightarrow> Inl err
      | Inr imageMetadata \<Rightarrow>
          if nullish value then
            Inl (typeError ''Cannot destructure property `bucket` of 'undefined' or 'null'.'')
          else if nullish (field value ''options'') then
            Inl (typeError ''Cannot destructure property `name` of 'undefined' or 'null'.'')
          else
            (case getOverlayImage W (field value ''bucket'') (field value ''key'')
                    (field value ''wRatio'') (field value ''hRatio'') (field value ''alpha'')
                    imageMetadata of
               Inl err \<Rightarrow> Inl err
             | Inr overlay \<Rightarrow>
                 invoke W img
                   (Composite (field value ''options'')
                      (Markup BannerXlink (nameOf (field value ''options''))))))"

text \<open>
  The branch \<^verbatim>\<open>TEPWatermark\<close> of part 000, lines 124 to 147: nothing is fetched, the
  template follows the style, and the composite is guarded by the width.
\<close>

definition tepWatermark_part000 ::
  "world \<Rightarrow> metadata \<Rightarrow> jsval \<Rightarrow> props \<Rightarrow> handle \<Rightarrow> error + handle" where
  "tepWatermark_part000 W metadata value edits img =
     (if nullish value then
        Inl (typeError ''Cannot destructure property `options` of 'undefined' or 'null'.'')
      else if nullish (field value ''options'') then
        Inl (typeError ''Cannot destructure property `name` of 'undefined' or 'null'.'')
      else
        (let options = field value ''options'';
             name = nameOf options;
             style = styleOf options
         in case imageMetadataFor W edits img metadata of
              Inl err \<Rightarrow> Inl err
            | Inr imageMetadata \<Rightarrow>
                (let watermark = (if style = Str ''cute'' then Markup Cute name
                                  else Markup Banner name)
                 in if metadata.width imageMetadata > 340
                       \<or> (metadata.width imageMetadata > 150 \<and> style = Str ''cute'')
                    then invoke W img (Composite options watermark)
                    else Inr img)))"

text \<open>
  One round of the loop of lines 56 to 144, with the \<^verbatim>\<open>TEPWatermark\<close> branch of
  the file as a parameter. The state is the caller's edits and the working image.
\<close>

definition applyEdit ::
  "(world \<Rightarrow> metadata \<Rightarrow> jsval \<Rightarrow> props \<Rightarrow> handle \<Rightarrow> error + handle)
   \<Rightarrow> world \<Rightarrow> metadata \<Rightarrow> string \<Rightarrow> jsval \<Rightarrow> props \<Rightarrow> handle \<Rightarrow> props \<times> (error + handle)" where
  "applyEdit watermarkBranch W metadata key value edits img =
     (if key = ''overlayWith'' then overlayWith W metadata value edits img
      else if key = ''smartCrop'' then (edits, smartCrop W metadata value img)
      else if key = ''TEPWatermark'' then (edits, watermarkBranch W metadata value edits img)
      else (edits, invoke W img (Method key value)))"

text \<open>The loop over the keys and values taken from the edits before the first round.\<close>

fun applyAll ::
  "(world \<Rightarrow> metadata \<Rightarrow> jsval \<Rightarrow> props \<Rightarrow> handle \<Rightarrow> error + handle)
   \<Rightarrow> world \<Rightarrow> metadata \<Rightarrow> (string \<times> jsval) list \<Rightarrow> props \<Rightarrow> handle \<Rightarrow> props \<times> (error + handle)" where
  "applyAll watermarkBranch W metadata [] edits img = (edits, Inr img)"
| "applyAll watermarkBranch W metadata ((key, value) # rest) edits img =
     (case applyEdit watermarkBranch W metadata key value edits img of
        (edits1, Inl err) \<Rightarrow> (edits1, Inl err)
      | (edits1, Inr img1) \<Rightarrow> applyAll watermarkBranch W metadata rest edits1 img1)"

text \<open>
  \<^verbatim>\<open>applyEdits\<close>: the result is the caller's edits object as the call leaves it, and
  the handle or the error.
\<close>

definition applyEditsWith ::
  "(world \<Rightarrow> metadata \<Rightarrow> jsval \<Rightarrow> props \<Rightarrow> handle \<Rightarrow> error + handle)
   \<Rightarrow> world \<Rightarrow> bytes \<Rightarrow> props \<Rightarrow> props \<times> (error + handle)" where
  "applyEditsWith watermarkBranch W originalImage edits =
     (let edits1 = defaultResize edits;
          img = sharpTolerant originalImage
      in case metadataOf W img of
           Inl err \<Rightarrow> (edits1, Inl err)
         | Inr metadata \<Rightarrow> applyAll watermarkBranch W metadata edits1 edits1 img)"

definition applyEdits :: "world \<Rightarrow> bytes \<Rightarrow> props \<Rightarrow> props \<times> (error + handle)" where
  "applyEdits = applyEditsWith tepWatermark"

definition applyEdits_part000 :: "world \<Rightarrow> bytes \<Rightarrow> props \<Rightarrow> props \<times> (error + handle)" where
  "applyEdits_part000 = applyEditsWith tepWatermark_part000"

subsection \<open>process\<close>

text \<open>\<^verbatim>\<open>buffer.toString('base64')\<close>.\<close>

definition base64Char :: "nat \<Rightarrow> char" where
  "base64Char n =
     ''ABCDEFGHIJKLMNOPQRSTUVWXYZabcdefghijklmnopqrstuvwxyz0123456789+/'' ! (n mod 64)"

fun base64 :: "bytes \<Rightarrow> string" where
  "base64 [] = []"
| "base64 [a] = [base64Char (a div 4), base64Char (a mod 4 * 16), CHR ''='', CHR ''='']"
| "base64 [a, b] =
     [base64Char (a div 4), base64Char (a mod 4 * 16 + b div 16), base64Char (b mod 16 * 4),
      CHR ''='']"
| "base64 (a # b # c # rest) =
     [base64Char (a div 4), base64Char (a mod 4 * 16 + b div 16),
      base64Char (b mod 16 * 4 + c div 64), base64Char (c mod 64)] @ base64 rest"

text \<open>
  A request: the original image, the edits (\<open>None\<close> when the request has none) and the
  output format (\<^verbatim>\<open>undefined\<close> when the request has none).
\<close>

record request =
  originalImage :: bytes
  edits :: "props option"
  outputFormat :: jsval

definition processWith ::
  "(world \<Rightarrow> bytes \<Rightarrow> props \<Rightarrow> props \<times> (error + handle)) \<Rightarrow> world \<Rightarrow> request \<Rightarrow> error + string" where
  "processWith apply W req =
     (case edits req of
        Some es \<Rightarrow>
          (case snd (apply W (originalImage req) es) of
             Inl err \<Rightarrow> Inl err
           | Inr modifiedImage \<Rightarrow>
               (case (if outputFormat req \<noteq> Undefined
                      then invoke W modifiedImage (Method ''toFormat'' (outputFormat req))
                      else Inr modifiedImage) of
                  Inl err \<Rightarrow> Inl err
                | Inr formatted \<Rightarrow>
                    (case toBuffer W formatted of
                       Inl err \<Rightarrow> Inl err
                     | Inr bufferImage \<Rightarrow> Inr (base64 bufferImage))))
      | None \<Rightarrow> Inr (base64 (originalImage req)))"

definition process :: "world \<Rightarrow> request \<Rightarrow> error + string" where
  "process = processWith applyEdits"

definition process_part000 :: "world \<Rightarrow> request \<Rightarrow> error + string" where
  "process_part000 = processWith applyEdits_part000"

section \<open>What a call leaves of the caller's edits\<close>




section \<open>A stand-in for the collaborators\<close>

text \<open>
  To run the handler on concrete inputs, the collaborators are replaced by a small
  stand-in. Its images are buffers that begin with the width and the height, two bytes
  each, followed by any payload. As in the image library, \<^verbatim>\<open>metadata()\<close> reads the
  header of the input buffer and takes no pending operation into account;
  \<^verbatim>\<open>resize\<close> reads \<^verbatim>\<open>width\<close> and \<^verbatim>\<open>height\<close> from the top level of its argument
  and ignores every other property; \<^verbatim>\<open>extract\<close> throws at the call for an area that
  is not made of non-negative integers, and an area beyond the image fails when the
  image is rendered; rendering encodes the image anew, without the payload. The store
  and the detector answer from fixed tables.
\<close>

definition standInDims :: "bytes \<Rightarrow> (int \<times> int) option" where
  "standInDims b =
     (case b of
        w1 # w0 # h1 # h0 # payload \<Rightarrow>
          (if 0 < 256 * w1 + w0 \<and> 0 < 256 * h1 + h0
           then Some (int (256 * w1 + w0), int (256 * h1 + h0)) else None)
      | _ \<Rightarrow> None)"

definition standInEncode :: "int \<times> int \<Rightarrow> bytes" where
  "standInEncode d =
     [nat (fst d) div 256, nat (fst d) mod 256, nat (snd d) div 256, nat (snd d) mod 256]"

definition unsupportedFormat :: error where
  "unsupportedFormat =
     ErrorObject Undefined Undefined (Str ''Input buffer contains unsupported image format'')"

definition standInMetadata :: "handle \<Rightarrow> error + metadata" where
  "standInMetadata h =
     (case standInDims (source h) of
        None \<Rightarrow> Inl unsupportedFormat
      | Some d \<Rightarrow> Inr \<lparr>metadata.width = fst d, metadata.height = snd d\<rparr>)"

text \<open>A positive integer dimension given to \<^verbatim>\<open>resize\<close>, if there is one.\<close>

fun dimension :: "jsval \<Rightarrow> int option" where
  "dimension (Number (Num r)) = (if of_int \<lfloor>r\<rfloor> = r \<and> 0 < r then Some \<lfloor>r\<rfloor> else None)"
| "dimension v = None"

definition standInResize :: "jsval \<Rightarrow> int \<times> int \<Rightarrow> int \<times> int" where
  "standInResize v d =
     (case (dimension (field v ''width''), dimension (field v ''height'')) of
        (Some w, Some h) \<Rightarrow> (w, h)
      | (Some w, None) \<Rightarrow> (w, max 1 (snd d * w div fst d))
      | (None, Some h) \<Rightarrow> (max 1 (fst d * h div snd d), h)
      | (None, None) \<Rightarrow> d)"

fun wholeNumber :: "number \<Rightarrow> int option" where
  "wholeNumber (Num r) = (if of_int \<lfloor>r\<rfloor> = r \<and> 0 \<le> r then Some \<lfloor>r\<rfloor> else None)"
| "wholeNumber NaN = None"

definition standInExtract :: "cropArea \<Rightarrow> int \<times> int \<Rightarrow> error + int \<times> int" where
  "standInExtract a d =
     (case (wholeNumber (left a), wholeNumber (top a), wholeNumber (cropArea.width a),
            wholeNumber (cropArea.height a)) of
        (Some l, Some t, Some w, Some h) \<Rightarrow>
          (if l + w \<le> fst d \<and> t + h \<le> snd d \<and> 0 < w \<and> 0 < h then Inr (w, h)
           else Inl (ErrorObject Undefined Undefined (Str ''extract_area: bad extract area'')))
      | _ \<Rightarrow> Inl (ErrorObject Undefined Undefined (Str ''extract_area: bad extract area'')))"

fun standInRun :: "call list \<Rightarrow> int \<times> int \<Rightarrow> error + int \<times> int" where
  "standInRun [] d = Inr d"
| "standInRun (Method k v # cs) d =
     (if k = ''resize'' then standInRun cs (standInResize v d) else standInRun cs d)"
| "standInRun (Composite options input # cs) d = standInRun cs d"
| "standInRun (Extract a # cs) d =
     (case standInExtract a d of Inl err \<Rightarrow> Inl err | Inr d1 \<Rightarrow> standInRun cs d1)"

definition standInToBuffer :: "handle \<Rightarrow> error + bytes" where
  "standInToBuffer h =
     (case standInDims (source h) of
        None \<Rightarrow> Inl unsupportedFormat
      | Some d \<Rightarrow>
          (case standInRun (calls h) d of
             Inl err \<Rightarrow> Inl err
           | Inr d1 \<Rightarrow> Inr (standInEncode d1)))"

definition standInMethods :: "string list" where
  "standInMethods =
     [''resize'', ''rotate'', ''flip'', ''flop'', ''sharpen'', ''blur'', ''grayscale'',
      ''negate'', ''normalize'', ''toFormat'']"

fun standInThrows :: "handle \<Rightarrow> call \<Rightarrow> error option" where
  "standInThrows h (Method k v) =
     (if k \<in> set standInMethods then None else Some (typeError ''image[key] is not a function''))"
| "standInThrows h (Composite options input) = None"
| "standInThrows h (Extract a) =
     (if wholeNumber (left a) = None \<or> wholeNumber (top a) = None
         \<or> wholeNumber (cropArea.width a) = None \<or> wholeNumber (cropArea.height a) = None
      then Some (ErrorObject Undefined Undefined (Str ''Invalid parameters for extract''))
      else None)"

definition standInGetObject ::
  "((string \<times> string) \<times> bytes) list \<Rightarrow> jsval \<Rightarrow> jsval \<Rightarrow> error + bytes" where
  "standInGetObject store bucket key =
     (case (bucket, key) of
        (Str b, Str k) \<Rightarrow>
          (case map_of store (b, k) of
             Some body \<Rightarrow> Inr body
           | None \<Rightarrow>
               Inl (ErrorObject (Number (Num 404)) (Str ''NoSuchKey'')
                      (Str ''The specified key does not exist.'')))
      | _ \<Rightarrow>
          Inl (ErrorObject Undefined (Str ''MissingRequiredParameter'')
                 (Str ''Missing required key in params'')))"

definition standIn ::
  "((string \<times> string) \<times> bytes) list \<Rightarrow> error + boundingBox list \<Rightarrow> world" where
  "standIn store faces =
     \<lparr>metadataOf = standInMetadata,
      toBuffer = standInToBuffer,
      throws = standInThrows,
      getObject = standInGetObject store,
      detectFaces = (\<lambda>b. faces)\<rparr>"

section \<open>Numbers as the handler reads them\<close>









section \<open>Overlay placement\<close>




section \<open>The crop area\<close>




section \<open>The bounding box of a face\<close>

text \<open>
  A face index without a face is rejected with status 400 and the code
  \<^verbatim>\<open>SmartCrop::FaceIndexOutOfRange\<close>, whatever the detector has found.
\<close>

lemma getBoundingBox_out_of_range:
  "detectFaces W b = Inr fs \<Longrightarrow> faceAt fs (if fi \<noteq> Undefined then fi else Number (Num 0)) = None \<Longrightarrow>
   \<exists>msg. getBoundingBox W b fi = Inl (Rejection (Number (Num 400)) (Str ''SmartCrop::FaceIndexOutOfRange'') msg)"
  by (simp add: getBoundingBox_def boundingBoxFailure_def typeError_def noBoundingBox_def)

text \<open>
  Every other failure of the detector is rejected with the detector's code and message
  and with the status 500, whatever the status of the detector's error.
\<close>

lemma getBoundingBox_detector_failure:
  "detectFaces W b = Inl err \<Longrightarrow> messageOf err \<noteq> Str noBoundingBox \<Longrightarrow>
   getBoundingBox W b fi = Inl (Rejection (Number (Num 500)) (codeOf err) (messageOf err))"
  by (simp add: getBoundingBox_def boundingBoxFailure_def noBoundingBox_def)

text \<open>
  The handler of \<^verbatim>\<open>getOverlayImage\<close>, for comparison, passes the status of the
  collaborator's error on.
\<close>

lemma getOverlayImage_status:
  "getObject W bucket key = Inl err \<Longrightarrow> truthy (statusCodeOf err) \<Longrightarrow>
   getOverlayImage W bucket key wr hr al md = Inl (Rejection (statusCodeOf err) (codeOf err) (messageOf err))"
  by (simp add: getOverlayImage_def overlayFailure_def)

text \<open>
  Claim C4 has the status of the detector's error passed on, 500 being the default. The
  handler at a detector error of status 400: the rejection has the detector's code and
  message, and the status 500.
\<close>

theorem getBoundingBox_status_500:
  "getBoundingBox
     (standIn [] (Inl (ErrorObject (Number (Num 400)) (Str ''InvalidImageFormatException'')
                         (Str ''Request has invalid image format''))))
     [0, 200, 0, 100] Undefined
   = Inl (Rejection (Number (Num 500)) (Str ''InvalidImageFormatException'')
            (Str ''Request has invalid image format''))"
  by code_simp

section \<open>The smart crop\<close>



section \<open>The watermark and the fetched overlay\<close>

text \<open>
  The metadata for the watermark and the calls on the image do not depend on the store.
\<close>

lemma invoke_getObject [simp]: "invoke (W\<lparr>getObject := g\<rparr>) = invoke W"
  by (simp add: invoke_def fun_eq_iff)

lemma resizedCopy_getObject [simp]: "resizedCopy (W\<lparr>getObject := g\<rparr>) = resizedCopy W"
  by (simp add: resizedCopy_def fun_eq_iff split: sum.splits)

lemma imageMetadataFor_getObject [simp]:
  "imageMetadataFor (W\<lparr>getObject := g\<rparr>) = imageMetadataFor W"
  by (simp add: imageMetadataFor_def fun_eq_iff split: sum.splits)

lemma tepWatermark_success:
  "tepWatermark W metadata value es img = Inr h \<Longrightarrow>
   invoke W img (Composite (field value ''options'')
      (Markup BannerXlink (nameOf (field value ''options'')))) = Inr h"
  by (auto simp: tepWatermark_def split: sum.splits if_splits)

text \<open>
  Claim C10. In \<^verbatim>\<open>source/image-handler/image-handler.js\<close> the \<^verbatim>\<open>TEPWatermark\<close> branch
  fetches an overlay and does not use it: when the branch succeeds with one store and
  with any other store in its place, the two resulting images are the same, namely the
  working image with one more composite, of the banner with the caller's name.
\<close>

theorem tepWatermark_ignores_overlay:
  "tepWatermark W metadata value es img = Inr h
   \<and> tepWatermark (W\<lparr>getObject := fetch\<rparr>) metadata value es img = Inr h'
   \<longrightarrow> h = h'
       \<and> h = img\<lparr>calls := calls img @ [Composite (field value ''options'')
                 (Markup BannerXlink (nameOf (field value ''options'')))]\<rparr>"
proof
  assume a: "tepWatermark W metadata value es img = Inr h
   \<and> tepWatermark (W\<lparr>getObject := fetch\<rparr>) metadata value es img = Inr h'"
  let ?c = "Composite (field value ''options'') (Markup BannerXlink (nameOf (field value ''options'')))"
  from a have 1: "invoke W img ?c = Inr h" by (blast dest: tepWatermark_success)
  from a have "invoke (W\<lparr>getObject := fetch\<rparr>) img ?c = Inr h'"
    by (blast dest: tepWatermark_success)
  then have 2: "invoke W img ?c = Inr h'" by simp
  from 1 2 have "h = h'" by simp
  moreover from 1 have "h = img\<lparr>calls := calls img @ [?c]\<rparr>"
    by (auto simp: invoke_def split: option.splits)
  ultimately show "h = h' \<and> h = img\<lparr>calls := calls img @ [?c]\<rparr>" by simp
qed

text \<open>
  Two stores that hold different overlays under the same bucket and key: the watermarked
  image is the same.
\<close>

theorem tepWatermark_ignores_overlay_witness:
  "tepWatermark (standIn [((''b'', ''k''), [0, 20, 0, 10, 1])] (Inr []))
      \<lparr>metadata.width = 400, metadata.height = 100\<rparr>
      (Obj [(''bucket'', Str ''b''), (''key'', Str ''k''), (''options'', Obj [(''name'', Str ''Jo'')])])
      [(''resize'', fitInside)] (sharpTolerant [1, 144, 0, 100])
     = Inr \<lparr>source = [1, 144, 0, 100], failOnError = False,
            calls = [Composite (Obj [(''name'', Str ''Jo'')]) (Markup BannerXlink (Str ''Jo''))]\<rparr>
   \<and> tepWatermark ((standIn [((''b'', ''k''), [0, 20, 0, 10, 1])] (Inr []))
          \<lparr>getObject := standInGetObject [((''b'', ''k''), [0, 99, 0, 77, 2, 3])]\<rparr>)
      \<lparr>metadata.width = 400, metadata.height = 100\<rparr>
      (Obj [(''bucket'', Str ''b''), (''key'', Str ''k''), (''options'', Obj [(''name'', Str ''Jo'')])])
      [(''resize'', fitInside)] (sharpTolerant [1, 144, 0, 100])
     = Inr \<lparr>source = [1, 144, 0, 100], failOnError = False,
            calls = [Composite (Obj [(''name'', Str ''Jo'')]) (Markup BannerXlink (Str ''Jo''))]\<rparr>"
proof -
  let ?W = "standIn [((''b'', ''k''), [0, 20, 0, 10, 1])] (Inr [])"
  let ?fetch = "standInGetObject [((''b'', ''k''), [0, 99, 0, 77, 2, 3])]"
  let ?md = "\<lparr>metadata.width = 400, metadata.height = 100\<rparr>"
  let ?edit = "Obj [(''bucket'', Str ''b''), (''key'', Str ''k''), (''options'', Obj [(''name'', Str ''Jo'')])]"
  let ?es = "[(''resize'', fitInside)]"
  let ?img = "sharpTolerant [1, 144, 0, 100]"
  let ?h = "\<lparr>source = [1, 144, 0, 100], failOnError = False,
            calls = [Composite (Obj [(''name'', Str ''Jo'')]) (Markup BannerXlink (Str ''Jo''))]\<rparr>"
  have h1: "tepWatermark ?W ?md ?edit ?es ?img = Inr ?h" by code_simp
  have h2: "tepWatermark (?W\<lparr>getObject := ?fetch\<rparr>) ?md ?edit ?es ?img = Inr ?h"
    by code_simp
  from tepWatermark_ignores_overlay [of ?W ?md ?edit ?es ?img ?h ?fetch ?h] h1 h2
  have "?h = ?img\<lparr>calls := calls ?img @ [Composite (field ?edit ''options'')
                 (Markup BannerXlink (nameOf (field ?edit ''options'')))]\<rparr>" by blast
  with h1 h2 show ?thesis by simp
qed

section \<open>The guard of the watermark\<close>

text \<open>
  Claim C8, for the file in which it holds. In part 000, for a \<^verbatim>\<open>TEPWatermark\<close> edit
  with options and with the metadata computed for it: the watermark is composited, in the
  template of the style, if the width is above 340, or above 150 with the style
  \<^verbatim>\<open>cute\<close>; otherwise the working image is left as it is and nothing is thrown.
\<close>

theorem tepWatermark_part000_guard:
  "\<not> nullish value \<and> \<not> nullish (field value ''options'')
   \<and> imageMetadataFor W es img metadata = Inr imageMetadata
   \<longrightarrow>
   (metadata.width imageMetadata > 340
      \<or> (metadata.width imageMetadata > 150 \<and> styleOf (field value ''options'') = Str ''cute'')
    \<longrightarrow> tepWatermark_part000 W metadata value es img
          = invoke W img
              (Composite (field value ''options'')
                 (Markup (if styleOf (field value ''options'') = Str ''cute'' then Cute else Banner)
                    (nameOf (field value ''options'')))))
   \<and> (\<not> (metadata.width imageMetadata > 340
          \<or> (metadata.width imageMetadata > 150 \<and> styleOf (field value ''options'') = Str ''cute''))
      \<longrightarrow> tepWatermark_part000 W metadata value es img = Inr img)"
  by (auto simp: tepWatermark_part000_def Let_def)

text \<open>
  The three cases of the specification: width 200 with the style \<^verbatim>\<open>cute\<close> is
  composited; width 200 and width 100 without a style are not.
\<close>

theorem tepWatermark_part000_guard_witness:
  "tepWatermark_part000 (standIn [] (Inr [])) \<lparr>metadata.width = 200, metadata.height = 100\<rparr>
      (Obj [(''options'', Obj [(''name'', Str ''Jo''), (''style'', Str ''cute'')])])
      [(''resize'', fitInside)] (sharpTolerant [0, 200, 0, 100])
     = Inr \<lparr>source = [0, 200, 0, 100], failOnError = False,
            calls = [Composite (Obj [(''name'', Str ''Jo''), (''style'', Str ''cute'')])
                       (Markup Cute (Str ''Jo''))]\<rparr>
   \<and> tepWatermark_part000 (standIn [] (Inr [])) \<lparr>metadata.width = 200, metadata.height = 100\<rparr>
      (Obj [(''options'', Obj [(''name'', Str ''Jo'')])])
      [(''resize'', fitInside)] (sharpTolerant [0, 200, 0, 100])
     = Inr (sharpTolerant [0, 200, 0, 100])
   \<and> tepWatermark_part000 (standIn [] (Inr [])) \<lparr>metadata.width = 100, metadata.height = 100\<rparr>
      (Obj [(''options'', Obj [(''name'', Str ''Jo'')])])
      [(''resize'', fitInside)] (sharpTolerant [0, 100, 0, 100])
     = Inr (sharpTolerant [0, 100, 0, 100])"
proof -
  let ?W = "standIn [] (Inr [])"
  let ?md = "\<lparr>metadata.width = 200, metadata.height = 100\<rparr>"
  let ?md1 = "\<lparr>metadata.width = 100, metadata.height = 100\<rparr>"
  let ?cute = "Obj [(''options'', Obj [(''name'', Str ''Jo''), (''style'', Str ''cute'')])]"
  let ?plain = "Obj [(''options'', Obj [(''name'', Str ''Jo'')])]"
  let ?es = "[(''resize'', fitInside)]"
  let ?img = "sharpTolerant [0, 200, 0, 100]"
  let ?img1 = "sharpTolerant [0, 100, 0, 100]"
  have a1: "\<not> nullish ?cute \<and> \<not> nullish (field ?cute ''options'')
      \<and> imageMetadataFor ?W ?es ?img ?md = Inr ?md" by code_simp
  have a2: "metadata.width ?md > 150 \<and> styleOf (field ?cute ''options'') = Str ''cute''"
    by code_simp
  have a3: "invoke ?W ?img
              (Composite (field ?cute ''options'')
                 (Markup (if styleOf (field ?cute ''options'') = Str ''cute'' then Cute else Banner)
                    (nameOf (field ?cute ''options''))))
      = Inr \<lparr>source = [0, 200, 0, 100], failOnError = False,
            calls = [Composite (Obj [(''name'', Str ''Jo''), (''style'', Str ''cute'')])
                       (Markup Cute (Str ''Jo''))]\<rparr>" by code_simp
  from tepWatermark_part000_guard [of ?cute ?W ?es ?img ?md ?md] a1 a2
  have r1: "tepWatermark_part000 ?W ?md ?cute ?es ?img
     = Inr \<lparr>source = [0, 200, 0, 100], failOnError = False,
            calls = [Composite (Obj [(''name'', Str ''Jo''), (''style'', Str ''cute'')])
                       (Markup Cute (Str ''Jo''))]\<rparr>"
    unfolding a3 [symmetric] by blast
  have b1: "\<not> nullish ?plain \<and> \<not> nullish (field ?plain ''options'')
      \<and> imageMetadataFor ?W ?es ?img ?md = Inr ?md" by code_simp
  have b2: "\<not> (metadata.width ?md > 340
          \<or> (metadata.width ?md > 150 \<and> styleOf (field ?plain ''options'') = Str ''cute''))"
    by code_simp
  from tepWatermark_part000_guard [of ?plain ?W ?es ?img ?md ?md] b1 b2
  have r2: "tepWatermark_part000 ?W ?md ?plain ?es ?img = Inr ?img" by blast
  have c1: "\<not> nullish ?plain \<and> \<not> nullish (field ?plain ''options'')
      \<and> imageMetadataFor ?W ?es ?img1 ?md1 = Inr ?md1" by code_simp
  have c2: "\<not> (metadata.width ?md1 > 340
          \<or> (metadata.width ?md1 > 150 \<and> styleOf (field ?plain ''options'') = Str ''cute''))"
    by code_simp
  from tepWatermark_part000_guard [of ?plain ?W ?es ?img1 ?md1 ?md1] c1 c2
  have r3: "tepWatermark_part000 ?W ?md1 ?plain ?es ?img1 = Inr ?img1" by blast
  from r1 r2 r3 show ?thesis by blast
qed

text \<open>
  Claim C8 is stated for every \<^verbatim>\<open>TEPWatermark\<close> edit. In
  \<^verbatim>\<open>source/image-handler/image-handler.js\<close> the branch has neither style nor guard:
  on an image 100 wide, without a style, the banner is composited.
\<close>

theorem tepWatermark_counterexample:
  "imageMetadataFor (standIn [((''b'', ''k''), [0, 20, 0, 10])] (Inr []))
      [(''TEPWatermark'', Obj [(''bucket'', Str ''b''), (''key'', Str ''k''),
                               (''options'', Obj [(''name'', Str ''Jo'')])]),
       (''resize'', fitInside)]
      (sharpTolerant [0, 100, 0, 100]) \<lparr>metadata.width = 100, metadata.height = 100\<rparr>
     = Inr \<lparr>metadata.width = 100, metadata.height = 100\<rparr>
   \<and> snd (applyEdits (standIn [((''b'', ''k''), [0, 20, 0, 10])] (Inr [])) [0, 100, 0, 100]
        [(''TEPWatermark'', Obj [(''bucket'', Str ''b''), (''key'', Str ''k''),
                                 (''options'', Obj [(''name'', Str ''Jo'')])])])
     = Inr \<lparr>source = [0, 100, 0, 100], failOnError = False,
            calls = [Composite (Obj [(''name'', Str ''Jo'')]) (Markup BannerXlink (Str ''Jo'')),
                     Method ''resize'' fitInside]\<rparr>"
  by code_simp

section \<open>A request without edits\<close>

lemma defaultResize_empty: "defaultResize [] = [(''resize'', fitInside)]"
  by (simp add: defaultResize_def getProp_def)

lemma applyEditsWith_empty:
  "applyEditsWith branch W original [] =
     ([(''resize'', fitInside)],
      case metadataOf W (sharpTolerant original) of
        Inl err \<Rightarrow> Inl err
      | Inr metadata \<Rightarrow> invoke W (sharpTolerant original) (Method ''resize'' fitInside))"
  by (simp add: applyEditsWith_def defaultResize_empty applyEdit_def Let_def split: sum.splits)

text \<open>
  Claim C7, restricted to what the handler returns unchanged. A request without edits is
  answered with the base64 text of the original bytes. A request with the empty edits
  goes through the pipeline: the image is opened, \<^verbatim>\<open>resize\<close> is called with the
  default \<^verbatim>\<open>{ fit: 'inside' }\<close>, then \<^verbatim>\<open>toFormat\<close> if the request has an output
  format, and the answer is the base64 text of what the library renders; if the library
  cannot read the metadata of the original, the request fails with the library's error.
\<close>

theorem process_without_edits:
  "(edits req = None \<longrightarrow> process W req = Inr (base64 (originalImage req)))
   \<and> (edits req = Some [] \<and> outputFormat req = Undefined
        \<and> metadataOf W (sharpTolerant (originalImage req)) = Inr metadata
        \<and> throws W (sharpTolerant (originalImage req)) (Method ''resize'' fitInside) = None
        \<and> toBuffer W \<lparr>source = originalImage req, failOnError = False,
                       calls = [Method ''resize'' fitInside]\<rparr> = Inr rendered
      \<longrightarrow> process W req = Inr (base64 rendered))
   \<and> (edits req = Some [] \<and> outputFormat req \<noteq> Undefined
        \<and> metadataOf W (sharpTolerant (originalImage req)) = Inr metadata
        \<and> throws W (sharpTolerant (originalImage req)) (Method ''resize'' fitInside) = None
        \<and> throws W \<lparr>source = originalImage req, failOnError = False,
                       calls = [Method ''resize'' fitInside]\<rparr>
              (Method ''toFormat'' (outputFormat req)) = None
        \<and> toBuffer W \<lparr>source = originalImage req, failOnError = False,
                       calls = [Method ''resize'' fitInside,
                                Method ''toFormat'' (outputFormat req)]\<rparr> = Inr converted
      \<longrightarrow> process W req = Inr (base64 converted))
   \<and> (edits req = Some [] \<and> metadataOf W (sharpTolerant (originalImage req)) = Inl err
      \<longrightarrow> process W req = Inl err)"
  by (auto simp: process_def processWith_def applyEdits_def applyEditsWith_empty invoke_def
      sharpTolerant_def)

text \<open>
  An image of 200 by 100 with two bytes of payload: without edits the answer has all six
  bytes, with the empty edits it has the four bytes that the stand-in renders. Three bytes
  that are no image: with the empty edits the request fails.
\<close>

theorem process_without_edits_witness:
  "process (standIn [] (Inr [])) \<lparr>originalImage = [0, 200, 0, 100, 7, 7], edits = None, outputFormat = Undefined\<rparr>
     = Inr ''AMgAZAcH''
   \<and> process (standIn [] (Inr [])) \<lparr>originalImage = [0, 200, 0, 100, 7, 7], edits = Some [], outputFormat = Undefined\<rparr>
     = Inr ''AMgAZA==''
   \<and> process (standIn [] (Inr [])) \<lparr>originalImage = [1, 2, 3], edits = Some [], outputFormat = Undefined\<rparr>
     = Inl unsupportedFormat"
proof -
  let ?W = "standIn [] (Inr [])"
  let ?none = "\<lparr>originalImage = [0, 200, 0, 100, 7, 7], edits = None, outputFormat = Undefined\<rparr>"
  let ?empty = "\<lparr>originalImage = [0, 200, 0, 100, 7, 7], edits = Some [], outputFormat = Undefined\<rparr>"
  let ?bad = "\<lparr>originalImage = [1, 2, 3], edits = Some [], outputFormat = Undefined\<rparr>"
  have b1: "base64 [0, 200, 0, 100, 7, 7] = ''AMgAZAcH''" by code_simp
  have b2: "base64 [0, 200, 0, 100] = ''AMgAZA==''" by code_simp
  from process_without_edits [of ?none ?W]
  have r1: "process ?W ?none = Inr ''AMgAZAcH''" using b1 by simp
  have h1: "metadataOf ?W (sharpTolerant (originalImage ?empty))
      = Inr \<lparr>metadata.width = 200, metadata.height = 100\<rparr>" by code_simp
  have h2: "throws ?W (sharpTolerant (originalImage ?empty)) (Method ''resize'' fitInside) = None"
    by code_simp
  have h3: "toBuffer ?W \<lparr>source = originalImage ?empty, failOnError = False,
                       calls = [Method ''resize'' fitInside]\<rparr> = Inr [0, 200, 0, 100]"
    by code_simp
  from process_without_edits [of ?empty ?W "\<lparr>metadata.width = 200, metadata.height = 100\<rparr>"
      "[0, 200, 0, 100]"] h1 h2 h3
  have r2: "process ?W ?empty = Inr ''AMgAZA==''" using b2 by simp
  have h4: "metadataOf ?W (sharpTolerant (originalImage ?bad)) = Inl unsupportedFormat"
    by code_simp
  from process_without_edits [of ?bad ?W _ _ _ unsupportedFormat] h4
  have r3: "process ?W ?bad = Inl unsupportedFormat" by simp
  from r1 r2 r3 show ?thesis by blast
qed

text \<open>
  Claim C7 has the original bytes returned for the empty edits as well. With the stand-in,
  which renders an image without its payload, the answer is not the base64 text of the
  original; and for bytes that are no image there is no answer but the library's error.
\<close>

theorem process_counterexample:
  "process (standIn [] (Inr []))
      \<lparr>originalImage = [0, 200, 0, 100, 7, 7], edits = Some [], outputFormat = Undefined\<rparr>
     \<noteq> Inr (base64 [0, 200, 0, 100, 7, 7])
   \<and> process (standIn [] (Inr []))
      \<lparr>originalImage = [1, 2, 3], edits = Some [], outputFormat = Undefined\<rparr>
     \<noteq> Inr (base64 [1, 2, 3])"
  by code_simp

section \<open>The default resize\<close>

text \<open>An assignment to a property that the object does not have adds it at the end.\<close>

lemma update_absent: "k \<notin> fst ` set ps \<Longrightarrow> AList.update k v ps = ps @ [(k, v)]"
  by (induction ps) auto

lemma map_of_absent: "k \<notin> fst ` set ps \<Longrightarrow> map_of ps k = None"
  by (simp add: map_of_eq_None_iff)

lemma getProp_absent: "k \<notin> fst ` set ps \<Longrightarrow> getProp ps k = Undefined"
  by (simp add: getProp_def map_of_absent)

lemma getProp_appended: "k \<notin> fst ` set ps \<Longrightarrow> getProp (ps @ [(k, v)]) k = v"
  by (simp add: getProp_def map_of_absent map_add_def)

lemma defaultResize_absent:
  "''resize'' \<notin> fst ` set es \<Longrightarrow> defaultResize es = es @ [(''resize'', fitInside)]"
  by (simp add: defaultResize_def getProp_absent update_absent)

lemma defaultResize_appended:
  "''resize'' \<notin> fst ` set es \<Longrightarrow>
   defaultResize (es @ [(''resize'', fitInside)]) = es @ [(''resize'', fitInside)]"
  by (simp add: defaultResize_def getProp_appended fitInside_def)

lemma applyAll_append:
  "applyAll branch W metadata (xs @ ys) es img =
     (case applyAll branch W metadata xs es img of
        (es1, Inl err) \<Rightarrow> (es1, Inl err)
      | (es1, Inr img1) \<Rightarrow> applyAll branch W metadata ys es1 img1)"
proof (induction xs arbitrary: es img)
  case Nil
  show ?case by simp
next
  case (Cons x xs)
  obtain key v where x: "x = (key, v)" by (cases x)
  show ?case
    by (simp add: x Cons.IH split: prod.splits sum.splits)
qed

lemma applyAll_resize_last:
  "applyAll branch W metadata (xs @ [(''resize'', v)]) es img = (es', Inr h) \<Longrightarrow>
   \<exists>cs. calls h = cs @ [Method ''resize'' v]"
  by (auto simp: applyAll_append applyEdit_def invoke_def split: prod.splits sum.splits option.splits)

lemma applyEditsWith_appended:
  "''resize'' \<notin> fst ` set es \<Longrightarrow>
   applyEditsWith branch W original es
     = applyEditsWith branch W original (es @ [(''resize'', fitInside)])"
  by (simp add: applyEditsWith_def defaultResize_absent defaultResize_appended)

lemma applyEditsWith_resize_last:
  assumes "''resize'' \<notin> fst ` set es"
    and "snd (applyEditsWith branch W original es) = Inr h"
  shows "\<exists>cs. calls h = cs @ [Method ''resize'' fitInside]"
proof -
  from assms obtain metadata es' where
    "applyAll branch W metadata (es @ [(''resize'', fitInside)]) (es @ [(''resize'', fitInside)])
       (sharpTolerant original) = (es', Inr h)"
    by (auto simp: applyEditsWith_def defaultResize_absent Let_def split: sum.splits prod.splits)
      (metis prod.collapse)
  then show ?thesis by (rule applyAll_resize_last)
qed

text \<open>
  Claim C1, with the default resize where the handler puts it. For edits without a
  \<^verbatim>\<open>resize\<close> key, \<^verbatim>\<open>applyEdits\<close> in either file behaves as on the same edits with
  \<^verbatim>\<open>resize: { fit: 'inside' }\<close> added at the end, and when it succeeds, the call of
  \<^verbatim>\<open>resize\<close> with \<^verbatim>\<open>{ fit: 'inside' }\<close> is the last call on the image, after the calls
  of every edit of the caller.
\<close>

theorem applyEdits_default_resize_last:
  "''resize'' \<notin> fst ` set es \<longrightarrow>
     applyEdits W original es = applyEdits W original (es @ [(''resize'', fitInside)])
     \<and> applyEdits_part000 W original es
         = applyEdits_part000 W original (es @ [(''resize'', fitInside)])
     \<and> (\<forall>h. snd (applyEdits W original es) = Inr h \<or> snd (applyEdits_part000 W original es) = Inr h
            \<longrightarrow> (\<exists>cs. calls h = cs @ [Method ''resize'' fitInside]))"
  unfolding applyEdits_def applyEdits_part000_def
  using applyEditsWith_appended applyEditsWith_resize_last by blast

text \<open>A rotation alone: the rotation is called first and the default resize last.\<close>

theorem applyEdits_default_resize_last_witness:
  "''resize'' \<notin> fst ` set [(''rotate'', Number (Num 90))]
   \<and> applyEdits (standIn [] (Inr [])) [0, 200, 0, 100] [(''rotate'', Number (Num 90))]
     = applyEdits (standIn [] (Inr [])) [0, 200, 0, 100]
         [(''rotate'', Number (Num 90)), (''resize'', fitInside)]
   \<and> snd (applyEdits (standIn [] (Inr [])) [0, 200, 0, 100] [(''rotate'', Number (Num 90))])
     = Inr \<lparr>source = [0, 200, 0, 100], failOnError = False,
            calls = [Method ''rotate'' (Number (Num 90)), Method ''resize'' fitInside]\<rparr>"
proof -
  let ?W = "standIn [] (Inr [])"
  let ?es = "[(''rotate'', Number (Num 90))]"
  have h: "''resize'' \<notin> fst ` set ?es" by simp
  from applyEdits_default_resize_last [of ?es ?W "[0, 200, 0, 100]"] h
  have r1: "applyEdits ?W [0, 200, 0, 100] ?es
      = applyEdits ?W [0, 200, 0, 100] (?es @ [(''resize'', fitInside)])" by blast
  have r2: "snd (applyEdits ?W [0, 200, 0, 100] ?es)
     = Inr \<lparr>source = [0, 200, 0, 100], failOnError = False,
            calls = [Method ''rotate'' (Number (Num 90)), Method ''resize'' fitInside]\<rparr>"
    by code_simp
  from h r1 r2 show ?thesis by simp
qed

text \<open>
  Claim C1 has the default resize in front. For a rotation alone the handler calls
  \<^verbatim>\<open>rotate\<close> and then \<^verbatim>\<open>resize\<close>; on the edits with the resize in front it calls
  \<^verbatim>\<open>resize\<close> and then \<^verbatim>\<open>rotate\<close>.
\<close>

theorem applyEdits_counterexample:
  "snd (applyEdits (standIn [] (Inr [])) [0, 200, 0, 100] [(''rotate'', Number (Num 90))])
     = Inr \<lparr>source = [0, 200, 0, 100], failOnError = False,
            calls = [Method ''rotate'' (Number (Num 90)), Method ''resize'' fitInside]\<rparr>
   \<and> snd (applyEdits (standIn [] (Inr [])) [0, 200, 0, 100]
           [(''resize'', fitInside), (''rotate'', Number (Num 90))])
     = Inr \<lparr>source = [0, 200, 0, 100], failOnError = False,
            calls = [Method ''resize'' fitInside, Method ''rotate'' (Number (Num 90))]\<rparr>
   \<and> applyEdits (standIn [] (Inr [])) [0, 200, 0, 100] [(''rotate'', Number (Num 90))]
     \<noteq> applyEdits (standIn [] (Inr [])) [0, 200, 0, 100]
           [(''resize'', fitInside), (''rotate'', Number (Num 90))]"
  by code_simp

section \<open>The caller's edits after the call\<close>


















section \<open>The metadata under a pending resize\<close>

text \<open>
  With a truthy \<^verbatim>\<open>edits.resize\<close>, the metadata for the placement and the watermark is
  read from a second handle, opened on the rendering of the working image, on which
  \<^verbatim>\<open>resize\<close> was called with the resize directive wrapped in two objects.
\<close>

lemma imageMetadataFor_copy:
  "truthy (getProp es ''resize'') \<Longrightarrow>
   imageMetadataFor W es img metadata =
     (case toBuffer W img of
        Inl err \<Rightarrow> Inl err
      | Inr imageBuffer \<Rightarrow>
          (case invoke W (sharp imageBuffer)
                  (Method ''resize'' (Obj [(''edits'', Obj [(''resize'', getProp es ''resize'')])])) of
             Inl err \<Rightarrow> Inl err
           | Inr copy \<Rightarrow> metadataOf W copy))"
  by (simp add: imageMetadataFor_def resizedCopy_def resizeArgument_def split: sum.splits)

text \<open>The loop itself calls \<^verbatim>\<open>resize\<close> on the working image with the directive as it is.\<close>

lemma applyEdit_resize:
  "applyEdit branch W metadata ''resize'' v es img = (es, invoke W img (Method ''resize'' v))"
  by (simp add: applyEdit_def)

text \<open>
  Claim C6 at an overlay at \<^verbatim>\<open>50p\<close> that stands before a resize to the width 100, on
  an image of 200 by 100: the metadata used for the placement is 200 by 100, the overlay
  is placed at 100, and the working image is rendered 100 by 50.
\<close>

theorem imageMetadataFor_before_resize:
  "imageMetadataFor (standIn [((''b'', ''k''), [0, 20, 0, 10])] (Inr []))
      [(''overlayWith'',
        Obj [(''bucket'', Str ''b''), (''key'', Str ''k''), (''options'', Obj [(''left'', Str ''50p'')])]),
       (''resize'', Obj [(''width'', Number (Num 100))])]
      (sharpTolerant [0, 200, 0, 100]) \<lparr>metadata.width = 200, metadata.height = 100\<rparr>
     = Inr \<lparr>metadata.width = 200, metadata.height = 100\<rparr>
   \<and> applyEdits (standIn [((''b'', ''k''), [0, 20, 0, 10])] (Inr [])) [0, 200, 0, 100]
      [(''overlayWith'',
        Obj [(''bucket'', Str ''b''), (''key'', Str ''k''), (''options'', Obj [(''left'', Str ''50p'')])]),
       (''resize'', Obj [(''width'', Number (Num 100))])]
     = ([(''overlayWith'',
          Obj [(''bucket'', Str ''b''), (''key'', Str ''k''),
               (''options'', Obj [(''left'', Number (Num 100))])]),
         (''resize'', Obj [(''width'', Number (Num 100))])],
        Inr \<lparr>source = [0, 200, 0, 100], failOnError = False,
              calls = [Composite (Obj [(''left'', Number (Num 100))]) (Bytes [0, 20, 0, 10]),
                       Method ''resize'' (Obj [(''width'', Number (Num 100))])]\<rparr>)
   \<and> toBuffer (standIn [((''b'', ''k''), [0, 20, 0, 10])] (Inr []))
        \<lparr>source = [0, 200, 0, 100], failOnError = False,
          calls = [Composite (Obj [(''left'', Number (Num 100))]) (Bytes [0, 20, 0, 10]),
                   Method ''resize'' (Obj [(''width'', Number (Num 100))])]\<rparr>
     = Inr [0, 100, 0, 50]"
  by code_simp

end
